theory Spec2Isabelle
  imports Complex_Main "HOL-Library.Stream"
begin

section \<open>Common data model\<close>

text \<open>
  Exceptions of the Python sources are values. \<open>ValueError\<close> carries its message, since
  the compositing processors are specified through the message they raise.
\<close>

datatype error =
    ValueError string
  | TypeError
  | AttributeError
  | ZeroDivisionError
  | IndexError
  | KeyError
  | OSError

text \<open>
  Sequencing of fallible steps: the first exception aborts the rest, as a raise does.
\<close>

definition seq :: "error + 'a \<Rightarrow> ('a \<Rightarrow> error + 'b) \<Rightarrow> error + 'b" where
  "seq r f = (case r of Inl e \<Rightarrow> Inl e | Inr x \<Rightarrow> f x)"

text \<open>
  An image is a numpy array of shape \<open>(height, width, depth)\<close>: \<open>image.shape[:2]\<close> is
  \<open>(height, width)\<close> and \<open>image.shape[-1]\<close> is \<open>depth\<close>. The entries are read through
  \<open>px\<close> at row, column and channel; only indices below the shape belong to the array.
  Floating-point entries are modelled by real numbers (rounding is abstracted away); the
  entries of an 8-bit image are the integers 0..255 among them.
\<close>

record ndarray =
  height :: nat
  width :: nat
  depth :: nat
  px :: "nat \<Rightarrow> nat \<Rightarrow> nat \<Rightarrow> real"

text \<open>An arithmetic operation between an array and a Python scalar acts entrywise.\<close>

definition map_array :: "(real \<Rightarrow> real) \<Rightarrow> ndarray \<Rightarrow> ndarray" where
  "map_array f a = a\<lparr>px := (\<lambda>i j c. f (px a i j c))\<rparr>"

section \<open>paz/processors/image2.py: CastImage\<close>

text \<open>
  Attribute lookup \<open>self.name\<close>: the instance dictionary first, then the attributes the
  class inherits. \<open>CastImage\<close> itself defines only \<open>__init__\<close> and \<open>call\<close>; its base
  class \<open>Processor\<close> (paz/core, not among the sources) is a parameter: \<open>base\<close> maps the
  attribute names it provides to their values.
\<close>

definition getattr :: "(string \<rightharpoonup> 'v) \<Rightarrow> (string \<rightharpoonup> 'v) \<Rightarrow> string \<Rightarrow> error + 'v" where
  "getattr base self name =
     (case self name of
        Some v \<Rightarrow> Inr v
      | None \<Rightarrow> (case base name of Some v \<Rightarrow> Inr v | None \<Rightarrow> Inl AttributeError))"

text \<open>
  \<open>def __init__(self, dtype): self.dtype = self.dtype\<close>. The right-hand side is
  evaluated first; the argument \<open>dtype\<close> is never used.
\<close>

definition CastImage_init ::
  "(string \<rightharpoonup> 'v) \<Rightarrow> (string \<rightharpoonup> 'v) \<Rightarrow> 'v \<Rightarrow> error + (string \<rightharpoonup> 'v)" where
  "CastImage_init base self dtype =
     seq (getattr base self ''dtype'') (\<lambda>v. Inr (self(''dtype'' \<mapsto> v)))"

text \<open>
  \<open>CastImage(dtype)\<close>: a fresh instance has an empty dictionary when \<open>__init__\<close> starts
  (\<open>CastImage.__init__\<close> does not call the base initialiser).
\<close>

definition CastImage :: "(string \<rightharpoonup> 'v) \<Rightarrow> 'v \<Rightarrow> error + (string \<rightharpoonup> 'v)" where
  "CastImage base dtype = CastImage_init base Map.empty dtype"

section \<open>paz/processors/image2.py: NormalizeImage and DenormalizeImage\<close>

definition NormalizeImage_call :: "ndarray \<Rightarrow> ndarray" where
  "NormalizeImage_call img = map_array (\<lambda>v. v / 255.0) img"

definition DenormalizeImage_call :: "ndarray \<Rightarrow> ndarray" where
  "DenormalizeImage_call img = map_array (\<lambda>v. v * 255.0) img"

section \<open>examples/hand_pose_estimation/hand_keypoints.py: HandKeypoints\<close>

subsection \<open>Library functions of \<open>os\<close> and \<open>os.path\<close>\<close>

text \<open>
  \<open>str.rfind\<close> for a single character: the highest index where it occurs, -1 when it
  does not occur.
\<close>

fun rfind_from :: "string \<Rightarrow> char \<Rightarrow> nat \<Rightarrow> int \<Rightarrow> int" where
  "rfind_from [] c i found = found"
| "rfind_from (x # xs) c i found = rfind_from xs c (Suc i) (if x = c then int i else found)"

definition rfind :: "string \<Rightarrow> char \<Rightarrow> int" where
  "rfind p c = rfind_from p c 0 (- 1)"

text \<open>
  \<open>os.path.splitext\<close> (posixpath): the extension starts at the last dot of the last path
  component, unless that component has only dots before it. The loop over
  \<open>p[filenameIndex:dotIndex]\<close> looking for a character other than the dot is the
  \<open>list_ex\<close> below.
\<close>

definition splitext :: "string \<Rightarrow> string \<times> string" where
  "splitext p =
     (let sepIndex = rfind p (CHR ''/'');
          dotIndex = rfind p (CHR ''.'');
          filenameIndex = sepIndex + 1
      in if dotIndex > sepIndex
            \<and> list_ex (\<lambda>c. c \<noteq> CHR ''.'')
                 (take (nat (dotIndex - filenameIndex)) (drop (nat filenameIndex) p))
         then (take (nat dotIndex) p, drop (nat dotIndex) p)
         else (p, []))"

text \<open>\<open>os.path.join(a, b)\<close> (posixpath) on two strings.\<close>

definition path_join :: "string \<Rightarrow> string \<Rightarrow> string" where
  "path_join a b =
     (if take 1 b = ''/'' then b
      else if a = [] \<or> last a = CHR ''/'' then a @ b
      else a @ ''/'' @ b)"

text \<open>
  The loader's \<open>path\<close> is either one string or a list of directory roots. \<open>os.listdir\<close>
  and \<open>os.path.join\<close> accept a string and raise \<open>TypeError\<close> on a list. What a
  directory contains, and in which order \<open>os.listdir\<close> enumerates it, is the parameter
  \<open>listdir\<close>.
\<close>

datatype path_arg = Str string | Roots "string list"

definition os_listdir ::
  "(string \<Rightarrow> error + string list) \<Rightarrow> path_arg \<Rightarrow> error + string list" where
  "os_listdir listdir path = (case path of Str p \<Rightarrow> listdir p | Roots _ \<Rightarrow> Inl TypeError)"

definition os_path_join :: "path_arg \<Rightarrow> string \<Rightarrow> error + string" where
  "os_path_join path file =
     (case path of Str p \<Rightarrow> Inr (path_join p file) | Roots _ \<Rightarrow> Inl TypeError)"

text \<open>\<open>for folder in path\<close>: the elements of a list, the characters of a string.\<close>

definition iterate :: "path_arg \<Rightarrow> string list" where
  "iterate path = (case path of Roots rs \<Rightarrow> rs | Str p \<Rightarrow> map (\<lambda>c. [c]) p)"

subsection \<open>\<open>_load_paths\<close>\<close>

text \<open>
  The body shared by both branches: every file of one listing is appended to
  \<open>image_paths\<close> or to \<open>label_paths\<close> by its extension, joined with \<open>path\<close> (the
  argument of \<open>_load_paths\<close>, in both branches).
\<close>

fun scan_files ::
  "path_arg \<Rightarrow> string list \<Rightarrow> string list \<times> string list
     \<Rightarrow> error + (string list \<times> string list)" where
  "scan_files path [] acc = Inr acc"
| "scan_files path (file # files) acc =
     (if snd (splitext file) = ''.jpg'' then
        (case os_path_join path file of
           Inl e \<Rightarrow> Inl e
         | Inr p \<Rightarrow> scan_files path files (fst acc @ [p], snd acc))
      else if snd (splitext file) = ''.json'' then
        (case os_path_join path file of
           Inl e \<Rightarrow> Inl e
         | Inr p \<Rightarrow> scan_files path files (fst acc, snd acc @ [p]))
      else scan_files path files acc)"

fun scan_folders ::
  "(string \<Rightarrow> error + string list) \<Rightarrow> path_arg \<Rightarrow> string list
     \<Rightarrow> string list \<times> string list \<Rightarrow> error + (string list \<times> string list)" where
  "scan_folders listdir path [] acc = Inr acc"
| "scan_folders listdir path (folder # folders) acc =
     (case listdir folder of
        Inl e \<Rightarrow> Inl e
      | Inr files \<Rightarrow>
          (case scan_files path files acc of
             Inl e \<Rightarrow> Inl e
           | Inr acc' \<Rightarrow> scan_folders listdir path folders acc'))"

text \<open>
  \<open>_load_paths(self, path)\<close>: the branch is chosen by the type of \<open>self.path\<close>, the
  files are those of the argument \<open>path\<close>.
\<close>

definition load_paths ::
  "(string \<Rightarrow> error + string list) \<Rightarrow> path_arg \<Rightarrow> path_arg
     \<Rightarrow> error + (string list \<times> string list)" where
  "load_paths listdir self_path path =
     (case self_path of
        Str _ \<Rightarrow> seq (os_listdir listdir path) (\<lambda>files. scan_files path files ([], []))
      | Roots _ \<Rightarrow> scan_folders listdir path (iterate path) ([], []))"

subsection \<open>\<open>load_data\<close>\<close>

text \<open>
  A sample is the dictionary with key \<open>'image'\<close> and, in the training split, key
  \<open>'keypoints'\<close>.
\<close>

record ('img, 'kp) sample =
  sample_image :: 'img
  sample_keypoints :: "'kp option"

text \<open>A loop that fills an array entry by entry and stops at the first exception.\<close>

fun for_each :: "('a \<Rightarrow> error + 'b) \<Rightarrow> 'a list \<Rightarrow> error + 'b list" where
  "for_each f [] = Inr []"
| "for_each f (x # xs) =
     (case f x of
        Inl e \<Rightarrow> Inl e
      | Inr y \<Rightarrow> (case for_each f xs of Inl e \<Rightarrow> Inl e | Inr ys \<Rightarrow> Inr (y # ys)))"

text \<open>
  \<open>_load_images\<close>. Reading one image (\<open>load_image\<close> and \<open>resize_image\<close> of
  paz.backend, not among the sources, and the store into \<open>hands[arg]\<close>) is the
  parameter \<open>read_image\<close>; it may fail.
\<close>

definition load_images :: "(string \<Rightarrow> error + 'img) \<Rightarrow> string list \<Rightarrow> error + 'img list" where
  "load_images read_image image_paths = for_each read_image image_paths"

text \<open>
  The values \<open>json.load\<close> returns: \<open>None\<close>, a bool, a number, a str, a list or a dict
  (its items as an association list).
\<close>

datatype json =
    JNull
  | JBool bool
  | JNumber real
  | JString string
  | JArray "json list"
  | JObject "(string \<times> json) list"

text \<open>
  \<open>data['hand_pts']\<close>: a dict is looked up and raises \<open>KeyError\<close> on a missing key; a
  list and a str accept integer indices only, and the other values cannot be indexed.
\<close>

definition getitem :: "json \<Rightarrow> string \<Rightarrow> error + json" where
  "getitem data key =
     (case data of
        JObject items \<Rightarrow> (case map_of items key of Some v \<Rightarrow> Inr v | None \<Rightarrow> Inl KeyError)
      | _ \<Rightarrow> Inl TypeError)"

text \<open>
  \<open>keypoint_set.to_numpy()\<close>: none of the types \<open>json.load\<close> returns has an attribute
  \<open>to_numpy\<close>, so the lookup of the method raises for every value.
\<close>

definition to_numpy :: "json \<Rightarrow> error + real list" where
  "to_numpy keypoint_set =
     (case keypoint_set of
        JNull \<Rightarrow> Inl AttributeError
      | JBool _ \<Rightarrow> Inl AttributeError
      | JNumber _ \<Rightarrow> Inl AttributeError
      | JString _ \<Rightarrow> Inl AttributeError
      | JArray _ \<Rightarrow> Inl AttributeError
      | JObject _ \<Rightarrow> Inl AttributeError)"

text \<open>\<open>reshape(21, 3)\<close> of a flat array: 21 rows of 3 entries, for 63 entries only.\<close>

fun rows_of_3 :: "real list \<Rightarrow> real list list" where
  "rows_of_3 (x # y # z # rest) = [x, y, z] # rows_of_3 rest"
| "rows_of_3 rest = []"

definition reshape_21_3 :: "real list \<Rightarrow> error + real list list" where
  "reshape_21_3 array =
     (if length array = 63 then Inr (rows_of_3 array)
      else Inl (ValueError ''cannot reshape array''))"

text \<open>
  \<open>_load_labels\<close>. Opening a label file and parsing it with \<open>json.load\<close> is the
  parameter \<open>read_json\<close> (what the file holds; it may fail); the rest of the loop body
  is the code's.
\<close>

definition load_labels ::
  "(string \<Rightarrow> error + json) \<Rightarrow> string list \<Rightarrow> error + real list list list" where
  "load_labels read_json label_paths =
     for_each
       (\<lambda>label_path.
          seq (read_json label_path) (\<lambda>data.
            seq (getitem data ''hand_pts'') (\<lambda>keypoint_set.
              seq (to_numpy keypoint_set) reshape_21_3)))
       label_paths"

text \<open>
  \<open>_to_list_of_dictionaries\<close>: one sample per image; \<open>keypoints[arg]\<close> raises
  \<open>IndexError\<close> beyond the end of the keypoint array.
\<close>

definition to_list_of_dictionaries ::
  "'img list \<Rightarrow> 'kp list option \<Rightarrow> error + ('img, 'kp) sample list" where
  "to_list_of_dictionaries hands keypoints =
     for_each
       (\<lambda>arg. case keypoints of
                 None \<Rightarrow> Inr \<lparr>sample_image = hands ! arg, sample_keypoints = None\<rparr>
               | Some ks \<Rightarrow>
                   if arg < length ks
                   then Inr \<lparr>sample_image = hands ! arg, sample_keypoints = Some (ks ! arg)\<rparr>
                   else Inl IndexError)
       [0..<length hands]"

definition load_data ::
  "(string \<Rightarrow> error + string list) \<Rightarrow> (string \<Rightarrow> error + 'img) \<Rightarrow> (string \<Rightarrow> error + json)
     \<Rightarrow> path_arg \<Rightarrow> string \<Rightarrow> error + ('img, real list list) sample list" where
  "load_data listdir read_image read_json self_path split =
     seq (load_paths listdir self_path self_path) (\<lambda>paths.
       seq (load_images read_image (fst paths)) (\<lambda>hands.
         if split = ''train''
         then seq (load_labels read_json (snd paths)) (\<lambda>keypoints.
                to_list_of_dictionaries hands (Some keypoints))
         else to_list_of_dictionaries hands None))"

section \<open>numpy: random draws\<close>

text \<open>
  The process-wide generator \<open>numpy.random\<close> is explicit state: a tape of raw integer
  draws, read by \<open>randint\<close> and \<open>choice\<close> and reduced into the requested range, and a
  tape of unit samples, read by \<open>uniform\<close> and \<open>rand\<close>; numpy draws unit samples from
  the half-open interval from 0 to 1. Every draw consumes one entry of its tape.
\<close>

record rng =
  ints :: "nat stream"
  units :: "real stream"

text \<open>\<open>randint(low, high)\<close>: an integer from \<open>low\<close> up to \<open>high - 1\<close>; an empty range raises.\<close>

definition randint :: "int \<Rightarrow> int \<Rightarrow> rng \<Rightarrow> error + (int \<times> rng)" where
  "randint low high g =
     (if low \<ge> high then Inl (ValueError ''low >= high'')
      else Inr (low + int (shd (ints g) mod nat (high - low)), g\<lparr>ints := stl (ints g)\<rparr>))"

text \<open>\<open>randint(low, high, n)\<close>: \<open>n\<close> such integers.\<close>

fun randint_n :: "int \<Rightarrow> int \<Rightarrow> nat \<Rightarrow> rng \<Rightarrow> error + (int list \<times> rng)" where
  "randint_n low high 0 g =
     (if low \<ge> high then Inl (ValueError ''low >= high'') else Inr ([], g))"
| "randint_n low high (Suc n) g =
     (case randint low high g of
        Inl e \<Rightarrow> Inl e
      | Inr r \<Rightarrow>
          (case randint_n low high n (snd r) of
             Inl e \<Rightarrow> Inl e
           | Inr rs \<Rightarrow> Inr (fst r # fst rs, snd rs)))"

text \<open>\<open>uniform(low, high)\<close> is \<open>low + (high - low) * u\<close> for a unit sample \<open>u\<close>.\<close>

definition uniform :: "real \<Rightarrow> real \<Rightarrow> rng \<Rightarrow> real \<times> rng" where
  "uniform low high g = (low + (high - low) * shd (units g), g\<lparr>units := stl (units g)\<rparr>)"

text \<open>
  \<open>choice(options)\<close> on a non-empty sequence: one of its entries (the numpy the source
  was written for turns the mixed tuple \<open>sample_options\<close> into a one-dimensional array
  of its six entries).
\<close>

definition choice :: "'a list \<Rightarrow> rng \<Rightarrow> 'a \<times> rng" where
  "choice options g = (options ! (shd (ints g) mod length options), g\<lparr>ints := stl (ints g)\<rparr>)"

section \<open>numpy: arrays\<close>

definition ones :: "nat \<Rightarrow> nat \<Rightarrow> nat \<Rightarrow> ndarray" where
  "ones h w d = \<lparr>height = h, width = w, depth = d, px = (\<lambda>i j c. 1)\<rparr>"

text \<open>
  A one-dimensional array of shape \<open>(n,)\<close>; broadcasting against a three-dimensional
  array treats it as shape \<open>(1, 1, n)\<close>.
\<close>

definition asarray :: "real list \<Rightarrow> ndarray" where
  "asarray xs = \<lparr>height = 1, width = 1, depth = length xs, px = (\<lambda>i j c. xs ! c)\<rparr>"

text \<open>
  Broadcasting of one axis: equal lengths, or one of them is 1 and is stretched. An
  operand stretched along an axis is read at index 0 there.
\<close>

definition bdim :: "nat \<Rightarrow> nat \<Rightarrow> nat option" where
  "bdim m n = (if m = n then Some m else if m = 1 then Some n else if n = 1 then Some m else None)"

definition bidx :: "nat \<Rightarrow> nat \<Rightarrow> nat" where
  "bidx n i = (if n = 1 then 0 else i)"

definition broadcast :: "(real \<Rightarrow> real \<Rightarrow> real) \<Rightarrow> ndarray \<Rightarrow> ndarray \<Rightarrow> error + ndarray" where
  "broadcast f a b =
     (case (bdim (height a) (height b), bdim (width a) (width b), bdim (depth a) (depth b)) of
        (Some h, Some w, Some d) \<Rightarrow>
          Inr \<lparr>height = h, width = w, depth = d,
               px = (\<lambda>i j c. f (px a (bidx (height a) i) (bidx (width a) j) (bidx (depth a) c))
                                (px b (bidx (height b) i) (bidx (width b) j) (bidx (depth b) c)))\<rparr>
      | _ \<Rightarrow> Inl (ValueError ''operands could not be broadcast together''))"

text \<open>\<open>np.split(image, [3], -1)\<close>: the channels before index 3 and those from index 3 on.\<close>

definition split3 :: "ndarray \<Rightarrow> ndarray \<times> ndarray" where
  "split3 a = (a\<lparr>depth := min 3 (depth a)\<rparr>,
               a\<lparr>depth := depth a - 3, px := (\<lambda>i j c. px a i j (c + 3))\<rparr>)"

text \<open>
  One bound of a slice \<open>a[start:stop]\<close> on an axis of length \<open>n\<close>: a negative bound counts
  from the end, and every bound is clipped to the axis. A slice whose stop is not after
  its start is empty.
\<close>

definition slice_index :: "nat \<Rightarrow> int \<Rightarrow> nat" where
  "slice_index n k = (if k < 0 then nat (max 0 (int n + k)) else min (nat k) n)"

definition slice2 :: "ndarray \<Rightarrow> int \<Rightarrow> int \<Rightarrow> int \<Rightarrow> int \<Rightarrow> ndarray" where
  "slice2 a y0 y1 x0 x1 =
     (let r0 = slice_index (height a) y0; r1 = slice_index (height a) y1;
          c0 = slice_index (width a) x0; c1 = slice_index (width a) x1
      in \<lparr>height = r1 - r0, width = c1 - c0, depth = depth a,
          px = (\<lambda>i j c. px a (r0 + i) (c0 + j) c)\<rparr>)"

text \<open>Python's \<open>int(x)\<close> on a float: truncation towards zero, to an unbounded integer.\<close>

definition py_int :: "real \<Rightarrow> int" where
  "py_int x = (if x \<ge> 0 then \<lfloor>x\<rfloor> else \<lceil>x\<rceil>)"

section \<open>paz/processors/image2.py: AddPlainBackground\<close>

text \<open>
  \<open>background_color\<close> is \<open>None\<close> or a list of numbers. The foreground keeps the first
  three channels, \<open>alpha\<close> is the fourth divided by 255.
\<close>

definition alpha_mask_error :: error where
  "alpha_mask_error = ValueError ''Provided image does not contain alpha mask.''"

definition AddPlainBackground_call ::
  "real list option \<Rightarrow> ndarray \<Rightarrow> rng \<Rightarrow> error + (ndarray \<times> rng)" where
  "AddPlainBackground_call background_color img g =
     (if depth img \<noteq> 4 then Inl alpha_mask_error
      else
        let H = height img; W = width img;
            foreground = fst (split3 img);
            alpha = map_array (\<lambda>v. v / 255) (snd (split3 img))
        in seq (case background_color of
                  None \<Rightarrow>
                    seq (randint_n 0 256 3 g) (\<lambda>color.
                      seq (broadcast (*) (ones H W 3) (asarray (map real_of_int (fst color))))
                        (\<lambda>background.
                          seq (broadcast (*) (map_array (\<lambda>v. 1.0 - v) alpha) background)
                            (\<lambda>background. Inr (background, snd color))))
                | Some background_color \<Rightarrow>
                    seq (broadcast (*) (ones H W 3) (asarray background_color))
                      (\<lambda>background. Inr (background, g)))
             (\<lambda>background.
                seq (broadcast (*) alpha foreground) (\<lambda>foreground.
                  seq (broadcast (+) foreground (fst background)) (\<lambda>composited.
                    Inr (composited, snd background)))))"

section \<open>paz/processors/image2.py: AddCroppedBackground\<close>






section \<open>paz/processors/image2.py: RandomImageCrop\<close>

text \<open>
  \<open>self.sample_options\<close>: \<open>None\<close> (use the whole image) or a pair of optional bounds.
  The bounds are read into \<open>min_iou\<close> and \<open>max_iou\<close> and never used afterwards.
\<close>

definition sample_options :: "(real option \<times> real option) option list" where
  "sample_options =
     [None, Some (Some 0.1, None), Some (Some 0.3, None), Some (Some 0.7, None),
      Some (Some 0.9, None), Some (None, None)]"

text \<open>The integer rectangle \<open>x1, y1, x2, y2\<close> of a trial and the crop it delimits.\<close>

definition rect_of :: "real \<Rightarrow> real \<Rightarrow> real \<Rightarrow> real \<Rightarrow> int list" where
  "rect_of left top' w h = [py_int left, py_int top', py_int (left + w), py_int (top' + h)]"

definition cut :: "ndarray \<Rightarrow> int list \<Rightarrow> ndarray" where
  "cut current_image rect = slice2 current_image (rect ! 1) (rect ! 3) (rect ! 0) (rect ! 2)"

text \<open>
  One pass through the body of \<open>for _ in range(50)\<close>. \<open>Inr (None, _)\<close> is the
  \<open>continue\<close> of a rejected trial, \<open>Inr (Some r, _)\<close> is \<open>return r\<close>. The draws are
  Python floats, so \<open>h / w\<close> raises on \<open>w = 0\<close>. \<open>random.uniform(width - w)\<close> passes
  the lower end only; the upper end is numpy's default 1.0. The crop is stored in
  \<open>current_image\<close>; the statement that ends the trial is \<open>return image\<close>.
\<close>

definition trial :: "ndarray \<Rightarrow> rng \<Rightarrow> error + (ndarray option \<times> rng)" where
  "trial img g =
     (let current_image = img;
          w = uniform (0.3 * real (width img)) (real (width img)) g;
          h = uniform (0.3 * real (height img)) (real (height img)) (snd w)
      in if fst w = 0 then Inl ZeroDivisionError
         else if fst h / fst w < 0.5 \<or> fst h / fst w > 2 then Inr (None, snd h)
         else
           let left = uniform (real (width img) - fst w) 1.0 (snd h);
               top' = uniform (real (height img) - fst h) 1.0 (snd left);
               rect = rect_of (fst left) (fst top') (fst w) (fst h);
               current_image = cut current_image rect
           in Inr (Some img, snd top'))"

fun trials :: "nat \<Rightarrow> ndarray \<Rightarrow> rng \<Rightarrow> error + (ndarray option \<times> rng)" where
  "trials 0 img g = Inr (None, g)"
| "trials (Suc n) img g =
     (case trial img g of
        Inl e \<Rightarrow> Inl e
      | Inr r \<Rightarrow> (case fst r of Some out \<Rightarrow> Inr (Some out, snd r) | None \<Rightarrow> trials n img (snd r)))"

text \<open>
  \<open>call\<close>: \<open>while True\<close> around the choice of a mode and its 50 trials. The loop has no
  exit of its own, so the result is an option: \<open>None\<close> is a call that never returns.
\<close>

partial_function (option) RandomImageCrop_call ::
  "ndarray \<Rightarrow> rng \<Rightarrow> (error + ndarray \<times> rng) option" where
  "RandomImageCrop_call img g =
     (let mode = choice sample_options g
      in case fst mode of
           None \<Rightarrow> Some (Inr (img, snd mode))
         | Some bounds \<Rightarrow>
             (case trials 50 img (snd mode) of
                Inl e \<Rightarrow> Some (Inl e)
              | Inr r \<Rightarrow>
                  (case fst r of
                     Some out \<Rightarrow> Some (Inr (out, snd r))
                   | None \<Rightarrow> RandomImageCrop_call img (snd r))))"


section \<open>paz/processors/image2.py: AddOcclusion\<close>

text \<open>\<open>np.random.rand\<close>: one unit sample.\<close>

definition rand :: "rng \<Rightarrow> real \<times> rng" where
  "rand g = (shd (units g), g\<lparr>units := stl (units g)\<rparr>)"

text \<open>
  The vertex of index \<open>vertex_arg\<close> with radius \<open>r\<close>: \<open>r\<close> times the unit vector of the
  angle, moved to the center and converted by \<open>astype(np.int32)\<close>. That conversion of
  the computed float coordinate to a 32-bit integer is numpy's and is the parameter
  \<open>astype_int32\<close>.
\<close>

definition place_vertex ::
  "(real \<Rightarrow> int) \<Rightarrow> real \<Rightarrow> real \<Rightarrow> real \<times> real \<Rightarrow> nat \<Rightarrow> real \<Rightarrow> int \<times> int" where
  "place_vertex astype_int32 initial_angle angle_between_vertices center vertex_arg r =
     (let angle = initial_angle + real vertex_arg * angle_between_vertices;
          vertex = (cos angle, sin angle);
          vertex = (r * fst vertex, r * snd vertex)
      in (astype_int32 (fst vertex + fst center), astype_int32 (snd vertex + snd center)))"

fun vertices_loop ::
  "(real \<Rightarrow> int) \<Rightarrow> real \<Rightarrow> real \<Rightarrow> real \<Rightarrow> real \<times> real \<Rightarrow> nat list \<Rightarrow> rng
     \<Rightarrow> (int \<times> int) list \<times> rng" where
  "vertices_loop astype_int32 initial_angle angle_between_vertices max_distance center [] g
     = ([], g)"
| "vertices_loop astype_int32 initial_angle angle_between_vertices max_distance center
     (vertex_arg # rest) g =
     (let r = uniform 0 max_distance g;
          v = place_vertex astype_int32 initial_angle angle_between_vertices center vertex_arg
                (fst r);
          vs = vertices_loop astype_int32 initial_angle angle_between_vertices max_distance
                 center rest (snd r)
      in (v # fst vs, snd vs))"

text \<open>
  \<open>call\<close>: the polygon is filled with a random color by \<open>ops.draw_filled_polygon\<close>
  (paz/core/ops, not among the sources; the parameter \<open>draw_filled_polygon\<close>), which
  writes into the image that \<open>call\<close> then returns.
\<close>

definition AddOcclusion_call ::
  "(real \<Rightarrow> int) \<Rightarrow> (ndarray \<Rightarrow> (int \<times> int) list \<Rightarrow> int list \<Rightarrow> ndarray) \<Rightarrow> real \<Rightarrow> ndarray
     \<Rightarrow> rng \<Rightarrow> error + (ndarray \<times> rng)" where
  "AddOcclusion_call astype_int32 draw_filled_polygon max_radius_scale img g =
     (let max_distance = real (max (height img) (width img)) * max_radius_scale
      in seq (randint 3 7 g) (\<lambda>num_vertices.
           let angle_between_vertices = 2 * pi / real_of_int (fst num_vertices);
               initial_angle = uniform 0 (2 * pi) (snd num_vertices);
               c0 = rand (snd initial_angle);
               c1 = rand (snd c0);
               center = (fst c0 * real (width img), fst c1 * real (height img));
               vertices = vertices_loop astype_int32 (fst initial_angle) angle_between_vertices
                            max_distance center [0..<nat (fst num_vertices)] (snd c1)
           in seq (randint_n 0 256 3 (snd vertices)) (\<lambda>color.
                Inr (draw_filled_polygon img (fst vertices) (fst color), snd color))))"

section \<open>Concrete inputs\<close>

text \<open>
  A generator whose every integer draw is \<open>n\<close> and whose every unit sample is \<open>u\<close>, and
  one whose first integer draw is \<open>m\<close> instead.
\<close>

definition const_rng :: "nat \<Rightarrow> real \<Rightarrow> rng" where
  "const_rng n u = \<lparr>ints = sconst n, units = sconst u\<rparr>"

definition first_rng :: "nat \<Rightarrow> nat \<Rightarrow> real \<Rightarrow> rng" where
  "first_rng m n u = \<lparr>ints = m ## sconst n, units = sconst u\<rparr>"

text \<open>An image of the given shape whose entry at row, column, channel is their sum.\<close>

definition gradient :: "nat \<Rightarrow> nat \<Rightarrow> nat \<Rightarrow> ndarray" where
  "gradient h w d = \<lparr>height = h, width = w, depth = d, px = (\<lambda>i j c. real (i + j + c))\<rparr>"

text \<open>
  The 2 by 2 image of the compositing scenario: every colour channel is 100, the alpha
  channel is 255 and 0 in the first row, 128 and 255 in the second.
\<close>

text \<open>
  A stand-in for \<open>ops.draw_filled_polygon\<close> in concrete runs: it paints the pixels at
  the vertices themselves with the colour.
\<close>

definition mark_vertices :: "ndarray \<Rightarrow> (int \<times> int) list \<Rightarrow> int list \<Rightarrow> ndarray" where
  "mark_vertices img vertices color =
     img\<lparr>px := (\<lambda>i j c. if (int j, int i) \<in> set vertices then real_of_int (color ! c)
                           else px img i j c)\<rparr>"

definition scenario_image :: ndarray where
  "scenario_image =
     \<lparr>height = 2, width = 2, depth = 4,
      px = (\<lambda>i j c. if c = 3
                      then (if i = 0 then (if j = 0 then 255 else 0)
                            else (if j = 0 then 128 else 255))
                      else 100)\<rparr>"

section \<open>Theorems\<close>

text \<open>
  C9. For every image array \<open>x\<close>, \<open>DenormalizeImage\<close> applied to the result of
  \<open>NormalizeImage\<close> gives \<open>x\<close> back: the first divides every entry by 255.0 and the
  second multiplies every entry by 255.0. With entries as real numbers the round trip is
  exact, which is the statement that floating-point arithmetic approximates within its
  tolerance.
\<close>

theorem C9_denormalize_normalize_roundtrip:
  "DenormalizeImage_call (NormalizeImage_call x) = x"
  by (simp add: DenormalizeImage_call_def NormalizeImage_call_def map_array_def)

text \<open>
  C10. For every \<open>dtype\<close> argument, constructing \<open>CastImage(dtype)\<close> fails with an
  \<open>AttributeError\<close>: the initialiser reads \<open>self.dtype\<close> before anything assigned it.
  This holds whenever the inherited base class provides no attribute named \<open>dtype\<close>.
\<close>

theorem C10_CastImage_cannot_be_constructed:
  "base ''dtype'' = None \<Longrightarrow> CastImage base dtype = Inl AttributeError"
  by (simp add: CastImage_def CastImage_init_def getattr_def seq_def)

theorem C10_CastImage_cannot_be_constructed_witness:
  "[''probability'' \<mapsto> (0::nat), ''name'' \<mapsto> 1] ''dtype'' = None
   \<and> CastImage [''probability'' \<mapsto> (0::nat), ''name'' \<mapsto> 1] 7 = Inl AttributeError"
  using C10_CastImage_cannot_be_constructed
          [of "[''probability'' \<mapsto> (0::nat), ''name'' \<mapsto> 1]" 7]
  by simp

subsection \<open>The dataset loader\<close>

lemma to_numpy_raises: "to_numpy v = Inl AttributeError"
  by (cases v) (simp_all add: to_numpy_def)

lemma load_labels_raises: "\<exists>e. load_labels read_json (label_path # rest) = Inl e"
  by (auto simp: load_labels_def seq_def to_numpy_raises split: sum.splits)

text \<open>
  C4. With N image files and N label files of matching stems, \<open>load_data\<close> in the
  training split should return N samples, each with the keypoints of the label file of
  its image. The code calls \<open>to_numpy()\<close> on the value parsed from the label file, which
  no parsed value provides, so the training split raises \<open>AttributeError\<close> as soon as
  there is one label file: here for a directory holding \<open>a.jpg\<close> and \<open>a.json\<close>, whose
  label holds 21 triples under \<open>hand_pts\<close>. The same directory loads in another split,
  where no label is read.
\<close>

theorem C4_training_split_raises_AttributeError:
  "load_data (\<lambda>_. Inr [''a.jpg'', ''a.json'']) Inr
       (\<lambda>_. Inr (JObject [(''hand_pts'',
                 JArray (replicate 21 (JArray [JNumber 10, JNumber 20, JNumber 1])))]))
       (Str ''dataset'') ''train''
     = Inl AttributeError
   \<and> load_data (\<lambda>_. Inr [''a.jpg'', ''a.json'']) Inr
       (\<lambda>_. Inr (JObject [(''hand_pts'',
                 JArray (replicate 21 (JArray [JNumber 10, JNumber 20, JNumber 1])))]))
       (Str ''dataset'') ''test''
     = Inr [\<lparr>sample_image = ''dataset/a.jpg'', sample_keypoints = None\<rparr>]"
  by (simp add: load_data_def load_paths_def os_listdir_def seq_def splitext_def rfind_def
        os_path_join_def path_join_def load_images_def load_labels_def getitem_def
        to_numpy_def to_list_of_dictionaries_def upt_rec)

text \<open>
  C5. A loader constructed with a list of directory roots should return, for every
  listed root, the paths of its image and label files under that root. The code joins
  each file name with the whole list instead of the folder being listed, so the first
  \<open>.jpg\<close> or \<open>.json\<close> file it meets raises \<open>TypeError\<close>: here for the single root
  \<open>d1\<close> holding \<open>a.jpg\<close> and \<open>a.json\<close>.
\<close>

theorem C5_list_of_roots_raises_TypeError:
  "load_paths (\<lambda>_. Inr [''a.jpg'', ''a.json'']) (Roots [''d1'']) (Roots [''d1''])
     = Inl TypeError"
  by (simp add: load_paths_def iterate_def splitext_def rfind_def os_path_join_def)

subsection \<open>Compositing with a configured colour\<close>

text \<open>
  C1. Compositing should give \<open>alpha * foreground + (1 - alpha) * background\<close>, so a
  pixel of alpha 255 should equal the foreground exactly. With a configured background
  colour the code adds the whole colour to \<open>alpha * foreground\<close> without the factor
  \<open>1 - alpha\<close> (the branch for a random colour and \<open>AddCroppedBackground\<close> do apply
  it). In the scenario image over the colour (10, 20, 30), the first pixel has alpha 255
  and foreground (100, 100, 100); the output there is (110, 120, 130).
\<close>

theorem C1_configured_color_is_added_unblended:
  "\<exists>out. AddPlainBackground_call (Some [10, 20, 30]) scenario_image g = Inr (out, g)
         \<and> px scenario_image 0 0 3 = 255
         \<and> px scenario_image 0 0 0 = 100 \<and> px out 0 0 0 = 110
         \<and> px scenario_image 0 0 1 = 100 \<and> px out 0 0 1 = 120
         \<and> px scenario_image 0 0 2 = 100 \<and> px out 0 0 2 = 130"
  by (simp add: AddPlainBackground_call_def scenario_image_def seq_def split3_def
        map_array_def broadcast_def ones_def asarray_def bdim_def bidx_def)

subsection \<open>Random cropping\<close>

lemma const_rng_next [simp]:
  "(const_rng n u)\<lparr>ints := stl (ints (const_rng n u))\<rparr> = const_rng n u"
  "(const_rng n u)\<lparr>units := stl (units (const_rng n u))\<rparr> = const_rng n u"
  "shd (ints (const_rng n u)) = n"
  "shd (units (const_rng n u)) = u"
  by (simp_all add: const_rng_def)

lemma first_rng_next [simp]:
  "(first_rng m n u)\<lparr>ints := stl (ints (first_rng m n u))\<rparr> = const_rng n u"
  "(first_rng m n u)\<lparr>units := stl (units (first_rng m n u))\<rparr> = first_rng m n u"
  "shd (ints (first_rng m n u)) = m"
  "shd (units (first_rng m n u)) = u"
  by (simp_all add: first_rng_def const_rng_def)




lemma choice_const: "choice sample_options (const_rng 5 u) = (Some (None, None), const_rng 5 u)"
  by (simp add: choice_def sample_options_def)







lemma square_trial:
  "trial (gradient 4 4 3) (const_rng 5 0) = Inr (Some (gradient 4 4 3), const_rng 5 0)"
  by (simp add: trial_def uniform_def gradient_def Let_def)

text \<open>
  C3. On a trial that is not rejected, \<open>call\<close> should return the crop delimited by the
  integer rectangle. The code stores the crop in \<open>current_image\<close> and returns
  \<open>image\<close>. For a 4 by 4 image and a generator whose unit samples are all 0, the first
  trial draws \<open>w = h = 1.2\<close> and \<open>left = top = 2.8\<close>; the rectangle is (2, 2, 4, 4), its
  crop is 2 by 2, and \<open>call\<close> returns the whole 4 by 4 image.
\<close>

theorem C3_accepted_trial_returns_whole_image:
  "RandomImageCrop_call (gradient 4 4 3) (const_rng 5 0)
     = Some (Inr (gradient 4 4 3, const_rng 5 0))
   \<and> rect_of (14 / 5) (14 / 5) (6 / 5) (6 / 5) = [2, 2, 4, 4]
   \<and> height (cut (gradient 4 4 3) [2, 2, 4, 4]) = 2
   \<and> width (cut (gradient 4 4 3) [2, 2, 4, 4]) = 2
   \<and> height (gradient 4 4 3) = 4"
proof -
  have "trials 50 (gradient 4 4 3) (const_rng 5 0) = Inr (Some (gradient 4 4 3), const_rng 5 0)"
    using square_trial by (simp add: eval_nat_numeral)
  then have "RandomImageCrop_call (gradient 4 4 3) (const_rng 5 0)
     = Some (Inr (gradient 4 4 3, const_rng 5 0))"
    by (subst RandomImageCrop_call.simps) (simp add: choice_const)
  moreover have "rect_of (14 / 5) (14 / 5) (6 / 5) (6 / 5) = [2, 2, 4, 4]"
    by (simp add: rect_of_def py_int_def)
  moreover have "height (cut (gradient 4 4 3) [2, 2, 4, 4]) = 2" "width (cut (gradient 4 4 3) [2, 2, 4, 4]) = 2"
    by (simp_all add: cut_def slice2_def slice_index_def gradient_def)
  ultimately show ?thesis by (simp add: gradient_def)
qed

subsection \<open>Compositing over a random colour or a cropped background\<close>


lemma bdim_simps [simp]:
  "bdim n n = Some n" "bdim n 1 = Some n" "bdim 1 n = Some n"
  "bdim n (Suc 0) = Some n" "bdim (Suc 0) n = Some n"
  by (auto simp: bdim_def)

lemma bidx_simps [simp]: "bidx (Suc 0) i = 0" "bidx 3 c = c"
  by (simp_all add: bidx_def)





























subsection \<open>The occlusion polygon\<close>

lemma vertices_loop_fst:
  "fst (vertices_loop cast ia ab md c args g)
     = map (\<lambda>(arg, u). place_vertex cast ia ab c arg (md * u))
         (zip args (stake (length args) (units g)))"
  by (induction args arbitrary: g) (simp_all add: Let_def uniform_def)

lemma vertices_loop_snd:
  "snd (vertices_loop cast ia ab md c args g) = g\<lparr>units := sdrop (length args) (units g)\<rparr>"
  by (induction args arbitrary: g) (simp_all add: Let_def uniform_def)

lemma vertices_loop_upt:
  "fst (vertices_loop cast ia ab md c [0..<n] g)
     = map (\<lambda>i. place_vertex cast ia ab c i (md * (units g !! i))) [0..<n]"
  unfolding vertices_loop_fst
  by (rule nth_equalityI) (simp_all add: stake_nth)

lemma unit_sample_scaled:
  assumes "0 \<le> (md::real)" "0 \<le> u" "u < 1"
  shows "0 \<le> md * u \<and> md * u \<le> md"
  using assms mult_left_mono [of u 1 md] by simp

lemma colour_draw:
  "randint_n 0 256 3 g
     = Inr ([int (shd (ints g) mod 256), int (shd (stl (ints g)) mod 256),
             int (shd (stl (stl (ints g))) mod 256)],
            g\<lparr>ints := stl (stl (stl (ints g)))\<rparr>)"
  by (simp add: numeral_3_eq_3 randint_def)

lemma tape_positions:
  "s !! 0 = shd s" "s !! 1 = shd (stl s)" "s !! 2 = shd (stl (stl s))"
  "s !! 3 = shd (stl (stl (stl s)))" "s !! (3 + i) = stl (stl (stl s)) !! i"
  "sdrop 4 s = stl (stl (stl (stl s)))" "sdrop (3 + n) s = sdrop n (stl (stl (stl s)))"
  by (simp_all add: eval_nat_numeral)

text \<open>
  C8. For every image, every radius scale that is not negative and every generator
  (whose unit samples lie from 0 inclusive to 1 exclusive), \<open>AddOcclusion.call\<close> draws
  the polygon whose vertex count \<open>n\<close> is 3 plus the first integer draw reduced modulo
  4, so one of 3, 4, 5, 6 (the range of \<open>randint(3, 7)\<close>). The initial angle is the
  first unit sample times \<open>2 * pi\<close>, the one center is the next two unit samples scaled
  by the width and the height, and vertex \<open>i\<close> is the conversion to 32-bit integers of
  the center plus radius \<open>i\<close> times the unit vector of the angle
  \<open>initial_angle + i * (2 * pi / n)\<close>, where radius \<open>i\<close> is \<open>max(H, W) *
  max_radius_scale\<close> times the unit sample drawn for that vertex and so lies between 0
  and \<open>max(H, W) * max_radius_scale\<close>. The angles increase strictly with \<open>i\<close>: the
  vertices are listed in increasing angle order.
\<close>

theorem C8_occlusion_polygon:
  assumes "0 \<le> max_radius_scale" and "\<forall>u\<in>sset (units g). 0 \<le> u \<and> u < 1"
  shows "\<exists>n initial_angle cx cy radius.
           n = 3 + ints g !! 0 mod 4
           \<and> initial_angle = 2 * pi * (units g !! 0)
           \<and> cx = units g !! 1 * real (width img)
           \<and> cy = units g !! 2 * real (height img)
           \<and> radius = (\<lambda>i. real (max (height img) (width img)) * max_radius_scale
                               * (units g !! (3 + i)))
           \<and> AddOcclusion_call astype_int32 draw_filled_polygon max_radius_scale img g
               = Inr (draw_filled_polygon img
                        (map (\<lambda>i. (astype_int32
                                      (radius i * cos (initial_angle + real i * (2 * pi / real n))
                                         + cx),
                                    astype_int32
                                      (radius i * sin (initial_angle + real i * (2 * pi / real n))
                                         + cy)))
                           [0..<n])
                        [int (ints g !! 1 mod 256), int (ints g !! 2 mod 256),
                         int (ints g !! 3 mod 256)],
                      \<lparr>ints = sdrop 4 (ints g), units = sdrop (3 + n) (units g)\<rparr>)
           \<and> 3 \<le> n \<and> n \<le> 6
           \<and> 0 \<le> initial_angle \<and> initial_angle < 2 * pi
           \<and> (\<forall>i<n. 0 \<le> radius i
                  \<and> radius i \<le> real (max (height img) (width img)) * max_radius_scale)
           \<and> (\<forall>i j. i < j \<longrightarrow> initial_angle + real i * (2 * pi / real n)
                               < initial_angle + real j * (2 * pi / real n))"
proof -
  define n where "n = 3 + ints g !! 0 mod 4"
  define md where "md = real (max (height img) (width img)) * max_radius_scale"
  define initial_angle where "initial_angle = 2 * pi * (units g !! 0)"
  define cx where "cx = units g !! 1 * real (width img)"
  define cy where "cy = units g !! 2 * real (height img)"
  define radius where "radius = (\<lambda>i. md * (units g !! (3 + i)))"
  note defs = n_def md_def initial_angle_def cx_def cy_def radius_def
  have sample: "0 \<le> units g !! k \<and> units g !! k < 1" for k
    using assms(2) snth_sset [of "units g" k] by blast
  have n: "3 \<le> n" "n \<le> 6" unfolding n_def by simp_all
  have md: "0 \<le> md" unfolding md_def using assms(1) by simp
  have rd: "randint 3 7 g = Inr (int n, g\<lparr>ints := stl (ints g)\<rparr>)"
    by (simp add: randint_def n_def)
  have call: "AddOcclusion_call astype_int32 draw_filled_polygon max_radius_scale img g
          = Inr (draw_filled_polygon img
                   (map (\<lambda>i. (astype_int32 (radius i * cos (initial_angle + real i * (2 * pi / real n)) + cx),
                               astype_int32 (radius i * sin (initial_angle + real i * (2 * pi / real n)) + cy)))
                      [0..<n])
                   [int (ints g !! 1 mod 256), int (ints g !! 2 mod 256), int (ints g !! 3 mod 256)],
                 \<lparr>ints = sdrop 4 (ints g), units = sdrop (3 + n) (units g)\<rparr>)"
    unfolding md_def initial_angle_def cx_def cy_def radius_def tape_positions
    by (simp add: AddOcclusion_call_def Let_def rd seq_def uniform_def rand_def
          vertices_loop_snd vertices_loop_upt colour_draw place_vertex_def)
  have angle: "0 \<le> initial_angle" "initial_angle < 2 * pi"
    unfolding initial_angle_def using sample [of 0] by simp_all
  have range: "\<forall>i<n. 0 \<le> radius i \<and> radius i \<le> md"
    unfolding radius_def using unit_sample_scaled [OF md] sample by blast
  have step: "0 < 2 * pi / real n" using n by simp
  have incr: "\<forall>i j. i < j \<longrightarrow> initial_angle + real i * (2 * pi / real n)
                               < initial_angle + real j * (2 * pi / real n)"
  proof (intro allI impI)
    fix i j :: nat
    assume "i < j"
    then have "real i < real j" by simp
    then have "real i * (2 * pi / real n) < real j * (2 * pi / real n)"
      using step by (rule mult_strict_right_mono)
    then show "initial_angle + real i * (2 * pi / real n)
                 < initial_angle + real j * (2 * pi / real n)"
      by simp
  qed
  show ?thesis
    apply (rule exI [of _ n], rule exI [of _ initial_angle], rule exI [of _ cx],
           rule exI [of _ cy], rule exI [of _ radius])
    using call n angle range incr
    unfolding defs by blast
qed

theorem C8_occlusion_polygon_witness:
  "(0::real) \<le> 1 / 2
   \<and> (\<exists>n initial_angle cx cy radius.
           n = 3 + ints (const_rng 2 (1 / 4)) !! 0 mod 4
           \<and> initial_angle = 2 * pi * (units (const_rng 2 (1 / 4)) !! 0)
           \<and> cx = units (const_rng 2 (1 / 4)) !! 1 * real (width (gradient 4 6 3))
           \<and> cy = units (const_rng 2 (1 / 4)) !! 2 * real (height (gradient 4 6 3))
           \<and> radius = (\<lambda>i. real (max (height (gradient 4 6 3)) (width (gradient 4 6 3)))
                               * (1 / 2) * (units (const_rng 2 (1 / 4)) !! (3 + i)))
           \<and> AddOcclusion_call py_int mark_vertices (1 / 2) (gradient 4 6 3) (const_rng 2 (1 / 4))
               = Inr (mark_vertices (gradient 4 6 3)
                        (map (\<lambda>i. (py_int
                                      (radius i * cos (initial_angle + real i * (2 * pi / real n))
                                         + cx),
                                    py_int
                                      (radius i * sin (initial_angle + real i * (2 * pi / real n))
                                         + cy)))
                           [0..<n])
                        [int (ints (const_rng 2 (1 / 4)) !! 1 mod 256),
                         int (ints (const_rng 2 (1 / 4)) !! 2 mod 256),
                         int (ints (const_rng 2 (1 / 4)) !! 3 mod 256)],
                      \<lparr>ints = sdrop 4 (ints (const_rng 2 (1 / 4))),
                       units = sdrop (3 + n) (units (const_rng 2 (1 / 4)))\<rparr>)
           \<and> 3 \<le> n \<and> n \<le> 6
           \<and> 0 \<le> initial_angle \<and> initial_angle < 2 * pi
           \<and> (\<forall>i<n. 0 \<le> radius i
                  \<and> radius i \<le> real (max (height (gradient 4 6 3)) (width (gradient 4 6 3)))
                                  * (1 / 2))
           \<and> (\<forall>i j. i < j \<longrightarrow> initial_angle + real i * (2 * pi / real n)
                               < initial_angle + real j * (2 * pi / real n)))"
proof (rule conjI)
  show scale: "(0::real) \<le> 1 / 2" by simp
  have samples: "\<forall>u\<in>sset (units (const_rng 2 (1 / 4))). 0 \<le> u \<and> u < 1"
    by (simp add: const_rng_def)
  show "\<exists>n initial_angle cx cy radius.
           n = 3 + ints (const_rng 2 (1 / 4)) !! 0 mod 4
           \<and> initial_angle = 2 * pi * (units (const_rng 2 (1 / 4)) !! 0)
           \<and> cx = units (const_rng 2 (1 / 4)) !! 1 * real (width (gradient 4 6 3))
           \<and> cy = units (const_rng 2 (1 / 4)) !! 2 * real (height (gradient 4 6 3))
           \<and> radius = (\<lambda>i. real (max (height (gradient 4 6 3)) (width (gradient 4 6 3)))
                               * (1 / 2) * (units (const_rng 2 (1 / 4)) !! (3 + i)))
           \<and> AddOcclusion_call py_int mark_vertices (1 / 2) (gradient 4 6 3) (const_rng 2 (1 / 4))
               = Inr (mark_vertices (gradient 4 6 3)
                        (map (\<lambda>i. (py_int
                                      (radius i * cos (initial_angle + real i * (2 * pi / real n))
                                         + cx),
                                    py_int
                                      (radius i * sin (initial_angle + real i * (2 * pi / real n))
                                         + cy)))
                           [0..<n])
                        [int (ints (const_rng 2 (1 / 4)) !! 1 mod 256),
                         int (ints (const_rng 2 (1 / 4)) !! 2 mod 256),
                         int (ints (const_rng 2 (1 / 4)) !! 3 mod 256)],
                      \<lparr>ints = sdrop 4 (ints (const_rng 2 (1 / 4))),
                       units = sdrop (3 + n) (units (const_rng 2 (1 / 4)))\<rparr>)
           \<and> 3 \<le> n \<and> n \<le> 6
           \<and> 0 \<le> initial_angle \<and> initial_angle < 2 * pi
           \<and> (\<forall>i<n. 0 \<le> radius i
                  \<and> radius i \<le> real (max (height (gradient 4 6 3)) (width (gradient 4 6 3)))
                                  * (1 / 2))
           \<and> (\<forall>i j. i < j \<longrightarrow> initial_angle + real i * (2 * pi / real n)
                               < initial_angle + real j * (2 * pi / real n))"
    by (rule C8_occlusion_polygon [OF scale samples])
qed

end
